theory Spec2Isabelle
  imports Main "HOL-Library.Word" "HOL-Library.Sublist"
begin

section \<open>Event extraction and dictionary-key derivation\<close>

text \<open>
  A shallow embedding of \<^verbatim>\<open>getDictionaryKeyHash\<close> and \<^verbatim>\<open>parseEvent\<close>.
  Both are synchronous functions of their arguments; whatever they raise
  (a \<^verbatim>\<open>TypeError\<close>, the \<^verbatim>\<open>unwrap\<close> of an error result, the error of a
  malformed reference) is a value \<open>Inl e\<close> of the result type \<open>error + 'a\<close>.

  The functions of the SDK, of the hash library and of the runtime that the two
  functions call are not part of the repository. Those whose behaviour is fixed by
  the platform (hex rendering and hex/UTF-8 reading of \<^verbatim>\<open>Buffer\<close>, array
  concatenation, lookup in a typed map) are written out; the others (decoding a
  formatted reference, BLAKE2b, decoding typed-value bytes, the numbers that the
  objects of an array convert to) are the fields of the record \<open>sdk\<close>, and
  every theorem holds for every such record.
\<close>

subsection \<open>Values\<close>

type_synonym byte = "8 word"

text \<open>
  A typed value as the SDK's decoder returns it, by what its \<^verbatim>\<open>value()\<close> is:
  a string (\<open>CLString\<close>); an Option object with the properties \<^verbatim>\<open>some\<close> and
  \<^verbatim>\<open>unwrap\<close> (\<open>CLOption\<close>); an array of entries (\<open>CLMap\<close>); an array of
  typed values (\<open>CLList\<close>, \<open>CLTuple\<close>); a byte array (\<open>CLByteArray\<close>, also a
  public key); \<^verbatim>\<open>undefined\<close> (\<open>CLUnit\<close>); or a scalar object or primitive
  that has no property \<^verbatim>\<open>some\<close> and is not array-like (\<open>CLOther\<close>: a
  number, a boolean, a key, a reference, a result).
\<close>

datatype clvalue =
    CLString string
  | CLOption "clvalue option"
  | CLMap "(clvalue \<times> clvalue) list"
  | CLList "clvalue list"
  | CLTuple "clvalue list"
  | CLByteArray "byte list"
  | CLUnit
  | CLOther nat

text \<open>
  JavaScript values: what the payload's \<^verbatim>\<open>parsed\<close> field holds and what
  \<^verbatim>\<open>parseEvent\<close> returns. An object literal is the list of its properties
  in the order written. \<open>JCLValue c\<close> is the typed-value object \<open>c\<close> itself,
  \<open>JValueOf c\<close> the result of \<^verbatim>\<open>c.value()\<close> for a \<open>c\<close> that is neither a
  string nor unit. Strings are sequences of code points below 256.
\<close>

datatype jsval =
    JNull
  | JUndefined
  | JBool bool
  | JNum int
  | JStr string
  | JArr "jsval list"
  | JObj "(string \<times> jsval) list"
  | JCLValue clvalue
  | JValueOf clvalue

datatype error =
    TypeError string
  | UnwrapError string
  | ReferenceFormatError string

text \<open>
  \<^verbatim>\<open>c.value()\<close>: the string of a \<open>CLString\<close>, \<^verbatim>\<open>undefined\<close> for unit, an
  object otherwise.
\<close>

fun value_of :: "clvalue \<Rightarrow> jsval" where
  "value_of (CLString s) = JStr s"
| "value_of CLUnit = JUndefined"
| "value_of c = JValueOf c"

text \<open>
  Modelled from the spec: the SDK's \<^verbatim>\<open>CLMap.get\<close>, which is not in the
  repository. "From the decoded map, look up fields by exact string key": the
  value of the first entry whose key is the string asked for, \<open>None\<close>
  (\<^verbatim>\<open>undefined\<close>) when there is none.
\<close>

fun CLMap_get :: "(clvalue \<times> clvalue) list \<Rightarrow> string \<Rightarrow> clvalue option" where
  "CLMap_get [] k = None"
| "CLMap_get ((k', v) # rest) k = (if value_of k' = JStr k then Some v else CLMap_get rest k)"

subsection \<open>Buffers\<close>

definition hex_digit :: "nat \<Rightarrow> char" where
  "hex_digit n = ''0123456789abcdef'' ! (n mod 16)"

text \<open>\<^verbatim>\<open>Buffer.from(bytes).toString("hex")\<close>: two lowercase digits a byte.\<close>

fun toString_hex :: "byte list \<Rightarrow> string" where
  "toString_hex [] = []"
| "toString_hex (b # bs) =
     hex_digit (unat b div 16) # hex_digit (unat b mod 16) # toString_hex bs"

definition unhex :: "char \<Rightarrow> nat option" where
  "unhex c =
     (let n = (of_char c :: nat) in
      if 48 \<le> n \<and> n \<le> 57 then Some (n - 48)
      else if 97 \<le> n \<and> n \<le> 102 then Some (n - 87)
      else if 65 \<le> n \<and> n \<le> 70 then Some (n - 55)
      else None)"

text \<open>
  \<^verbatim>\<open>Buffer.from(s, "hex")\<close>: reads pairs of hex digits of either case and
  stops, without raising, at the first pair that is not one or at a last
  single character.
\<close>

fun Buffer_from_hex :: "string \<Rightarrow> byte list" where
  "Buffer_from_hex (a # b # rest) =
     (case unhex a of
        None \<Rightarrow> []
      | Some x \<Rightarrow>
          (case unhex b of
             None \<Rightarrow> []
           | Some y \<Rightarrow> of_nat (16 * x + y) # Buffer_from_hex rest))"
| "Buffer_from_hex _ = []"

text \<open>The UTF-8 bytes of one code point below 256.\<close>

definition utf8_char :: "char \<Rightarrow> byte list" where
  "utf8_char c =
     (let n = (of_char c :: nat) in
      if n < 128 then [of_nat n]
      else [of_nat (192 + n div 64), of_nat (128 + n mod 64)])"

definition utf8 :: "string \<Rightarrow> byte list" where
  "utf8 s = concat (map utf8_char s)"

subsection \<open>Collaborators\<close>

text \<open>What \<^verbatim>\<open>CLURef.value()\<close> returns.\<close>

record cluref =
  data :: "byte list"
  accessRights :: nat

text \<open>
  \<open>fromFormattedStr\<close> is \<^verbatim>\<open>CLURef.fromFormattedStr\<close>: \<open>Inl msg\<close> when it throws.
  \<open>blake2b input outlen\<close> is \<^verbatim>\<open>blake.blake2b(input, undefined, outlen)\<close>.
  \<open>fromBytesWithType\<close> is \<^verbatim>\<open>CLValueParsers.fromBytesWithType\<close>, which returns
  a result object: \<open>Inl msg\<close> is \<^verbatim>\<open>Err(msg)\<close>, \<open>Inr v\<close> is \<^verbatim>\<open>Ok(v)\<close>.
  \<open>arrayBytes a\<close> are the bytes that \<^verbatim>\<open>Buffer.from\<close> reads from an array or
  array-like object \<open>a\<close>, one for each element converted to a number; the
  conversion of the SDK's objects is not in the repository. It never raises.
\<close>

record sdk =
  fromFormattedStr :: "string \<Rightarrow> string + cluref"
  blake2b :: "byte list \<Rightarrow> nat \<Rightarrow> byte list"
  fromBytesWithType :: "byte list \<Rightarrow> string + clvalue"
  arrayBytes :: "jsval \<Rightarrow> byte list"

text \<open>
  What makes a plain object array-like for \<^verbatim>\<open>Buffer.from\<close>: a property
  \<^verbatim>\<open>length\<close>, or the shape \<^verbatim>\<open>{type: "Buffer", data: [...]}\<close>.
\<close>

definition array_like :: "(string \<times> jsval) list \<Rightarrow> bool" where
  "array_like ps =
     ((case map_of ps ''length'' of None \<Rightarrow> False | Some v \<Rightarrow> v \<noteq> JUndefined) \<or>
      (map_of ps ''type'' = Some (JStr ''Buffer'') \<and>
       (case map_of ps ''data'' of Some (JArr _) \<Rightarrow> True | _ \<Rightarrow> False)))"

text \<open>
  \<^verbatim>\<open>Buffer.from(x)\<close>: the UTF-8 bytes of a string, the bytes of a byte array,
  the bytes read from an array (the \<^verbatim>\<open>value()\<close> of a map, list or tuple is
  one) or array-like object; a \<^verbatim>\<open>TypeError\<close> for every other value: a
  primitive that is not a string, \<^verbatim>\<open>null\<close>, \<^verbatim>\<open>undefined\<close>, and an object
  that is not array-like (an Option object, the value of a scalar, a
  typed-value object).
\<close>

fun Buffer_from :: "sdk \<Rightarrow> jsval \<Rightarrow> error + byte list" where
  "Buffer_from s (JStr str) = Inr (utf8 str)"
| "Buffer_from s (JValueOf (CLString str)) = Inr (utf8 str)"
| "Buffer_from s (JValueOf (CLByteArray bs)) = Inr bs"
| "Buffer_from s (JValueOf (CLMap m)) = Inr (arrayBytes s (JValueOf (CLMap m)))"
| "Buffer_from s (JValueOf (CLList xs)) = Inr (arrayBytes s (JValueOf (CLList xs)))"
| "Buffer_from s (JValueOf (CLTuple xs)) = Inr (arrayBytes s (JValueOf (CLTuple xs)))"
| "Buffer_from s (JArr xs) = Inr (arrayBytes s (JArr xs))"
| "Buffer_from s (JObj ps) =
     (if array_like ps then Inr (arrayBytes s (JObj ps))
      else Inl (TypeError ''The first argument must be of type string or array-like''))"
| "Buffer_from s _ = Inl (TypeError ''The first argument must be of type string or array-like'')"

subsection \<open>\<^verbatim>\<open>getDictionaryKeyHash\<close>\<close>

text \<open>The parameter \<^verbatim>\<open>id\<close> is \<open>eid\<close> here.\<close>

definition getDictionaryKeyHash :: "sdk \<Rightarrow> string \<Rightarrow> jsval \<Rightarrow> error + string" where
  "getDictionaryKeyHash s uref eid =
     (case fromFormattedStr s uref of
        Inl msg \<Rightarrow> Inl (ReferenceFormatError msg)
      | Inr eventsUref \<Rightarrow>
          (let eventsUrefBytes = data eventsUref in
           case Buffer_from s eid of
             Inl e \<Rightarrow> Inl e
           | Inr idNum \<Rightarrow>
               (let finalBytes = concat [eventsUrefBytes, idNum];
                    blaked = blake2b s finalBytes 32;
                    str = toString_hex blaked
                in Inr (''dictionary-'' @ str))))"

subsection \<open>\<^verbatim>\<open>parseEvent\<close>\<close>

text \<open>The first argument of \<^verbatim>\<open>parseEvent\<close>.\<close>

record subscription =
  contractPackageHash :: string
  eventNames :: "string list"
  eventsURef :: string

text \<open>
  The second argument, as far as \<^verbatim>\<open>parseEvent\<close> reads it:
  \<^verbatim>\<open>value.body.DeployProcessed.execution_result\<close> with its optional
  \<^verbatim>\<open>Failure\<close> and \<^verbatim>\<open>Success\<close> members, and the transforms of
  \<^verbatim>\<open>Success.effect\<close>. A transform is an object with the own property
  \<^verbatim>\<open>WriteCLValue\<close> or anything else; \<^verbatim>\<open>parsed\<close> is \<open>JUndefined\<close> when the
  property is missing.
\<close>

record failure_rec =
  error_message :: string

record write_rec =
  bytes :: string
  parsed :: jsval

datatype transform_kind =
    WriteCLValue write_rec
  | OtherTransform string

record transform_rec =
  key :: string
  transform :: transform_kind

record effect_rec =
  transforms :: "transform_rec list"

record success_rec =
  effect :: effect_rec

record execution_result_rec =
  Failure :: "failure_rec option"
  Success :: "success_rec option"

record deploy_processed_rec =
  execution_result :: execution_result_rec

record body_rec =
  DeployProcessed :: deploy_processed_rec

record payload =
  body :: body_rec

text \<open>
  \<^verbatim>\<open>xs.reduce(f, init)\<close> for a callback that may raise: the first error ends
  the scan.
\<close>

fun reduce :: "('a \<Rightarrow> 'b \<Rightarrow> error + 'a) \<Rightarrow> 'b list \<Rightarrow> 'a \<Rightarrow> error + 'a" where
  "reduce f [] acc = Inr acc"
| "reduce f (x # xs) acc =
     (case f acc x of Inl e \<Rightarrow> Inl e | Inr acc' \<Rightarrow> reduce f xs acc')"

text \<open>The condition of the callback's outer \<^verbatim>\<open>if\<close>.\<close>

definition is_candidate :: "transform_rec \<Rightarrow> bool" where
  "is_candidate val =
     (prefix ''dictionary'' (key val) \<and>
      (case transform val of
         WriteCLValue w \<Rightarrow> parsed w = JNull
       | OtherTransform _ \<Rightarrow> False))"

text \<open>
  The typed values whose \<^verbatim>\<open>value()\<close> is an array, a byte array or
  \<^verbatim>\<open>undefined\<close>.
\<close>

fun array_or_undefined :: "clvalue \<Rightarrow> bool" where
  "array_or_undefined (CLMap m) = True"
| "array_or_undefined (CLList xs) = True"
| "array_or_undefined (CLTuple xs) = True"
| "array_or_undefined (CLByteArray bs) = True"
| "array_or_undefined CLUnit = True"
| "array_or_undefined _ = False"

text \<open>
  \<^verbatim>\<open>clOption.some ? clOption.unwrap() : null\<close>, for \<open>clOption\<close> the
  \<^verbatim>\<open>value()\<close> of the decoded typed value. An Option object gives its
  content or null. A string or scalar has no property \<^verbatim>\<open>some\<close>: null. An
  array or byte array has the method \<^verbatim>\<open>some\<close>, which is truthy, and no
  \<^verbatim>\<open>unwrap\<close>: the call raises. Reading \<^verbatim>\<open>some\<close> of \<^verbatim>\<open>undefined\<close>
  raises.
\<close>

fun some_or_null :: "clvalue \<Rightarrow> error + clvalue option" where
  "some_or_null (CLOption (Some v)) = Inr (Some v)"
| "some_or_null (CLOption None) = Inr None"
| "some_or_null (CLString str) = Inr None"
| "some_or_null (CLOther n) = Inr None"
| "some_or_null CLUnit =
     Inl (TypeError ''Cannot read properties of undefined (reading some)'')"
| "some_or_null _ = Inl (TypeError ''clOption.unwrap is not a function'')"

text \<open>The inner \<^verbatim>\<open>if\<close> of the callback, for a decoded map.\<close>

definition check_map ::
  "sdk \<Rightarrow> subscription \<Rightarrow> jsval list \<Rightarrow> transform_rec \<Rightarrow> (clvalue \<times> clvalue) list
     \<Rightarrow> error + jsval list" where
  "check_map s sub acc val m =
     (let hash = CLMap_get m ''contract_package_hash'';
          eid = CLMap_get m ''event_id'';
          event = CLMap_get m ''event_type''
      in case eid of
           None \<Rightarrow> Inr acc
         | Some i \<Rightarrow>
             (case getDictionaryKeyHash s (eventsURef sub) (value_of i) of
                Inl e \<Rightarrow> Inl e
              | Inr k \<Rightarrow>
                  if k \<noteq> key val then Inr acc
                  else
                    (case hash of
                       None \<Rightarrow> Inr acc
                     | Some h \<Rightarrow>
                         if value_of h \<noteq> JStr (contractPackageHash sub) then Inr acc
                         else
                           (case event of
                              None \<Rightarrow> Inr acc
                            | Some ev \<Rightarrow>
                                if value_of ev \<in> set (map JStr (eventNames sub))
                                then Inr (acc @
                                  [JObj [(''name'', value_of ev),
                                         (''clValue'', JCLValue (CLMap m))]])
                                else Inr acc))))"

text \<open>The callback given to \<^verbatim>\<open>transforms.reduce\<close>.\<close>

definition callback ::
  "sdk \<Rightarrow> subscription \<Rightarrow> jsval list \<Rightarrow> transform_rec \<Rightarrow> error + jsval list" where
  "callback s sub acc val =
     (if is_candidate val then
        (case transform val of
           OtherTransform _ \<Rightarrow> Inr acc
         | WriteCLValue w \<Rightarrow>
             (let byteArray = Buffer_from_hex (bytes w);
                  maybeCLOption = fromBytesWithType s byteArray
              in case maybeCLOption of
                   Inl msg \<Rightarrow> Inl (UnwrapError msg)
                 | Inr decoded \<Rightarrow>
                     (case some_or_null decoded of
                        Inl e \<Rightarrow> Inl e
                      | Inr None \<Rightarrow> Inr acc
                      | Inr (Some (CLMap m)) \<Rightarrow> check_map s sub acc val m
                      | Inr (Some _) \<Rightarrow> Inr acc)))
      else Inr acc)"

definition parseEvent :: "sdk \<Rightarrow> subscription \<Rightarrow> payload \<Rightarrow> error + jsval" where
  "parseEvent s sub v =
     (let er = execution_result (DeployProcessed (body v)) in
      case Failure er of
        Some f \<Rightarrow> Inr (JObj [(''error'', JStr (error_message f)), (''success'', JBool False)])
      | None \<Rightarrow>
          (case Success er of
             None \<Rightarrow> Inl (TypeError ''Cannot read properties of undefined (reading effect)'')
           | Some ok \<Rightarrow>
               (case reduce (callback s sub) (transforms (effect ok)) [] of
                  Inl e \<Rightarrow> Inl e
                | Inr cep47Events \<Rightarrow>
                    Inr (JObj [(''error'', JNull),
                               (''success'', JBool (length cep47Events \<noteq> 0)),
                               (''data'', JArr cep47Events)]))))"


subsection \<open>Event names\<close>

text \<open>The string values of the enumeration \<^verbatim>\<open>CEP47Events\<close>.\<close>

definition MintOne :: string where
  "MintOne = ''cep47_mint_one''"

definition TransferToken :: string where
  "TransferToken = ''cep47_transfer_token''"

definition BurnOne :: string where
  "BurnOne = ''cep47_burn_one''"

definition MetadataUpdate :: string where
  "MetadataUpdate = ''cep47_metadata_update''"

subsection \<open>Payloads, results and the specification's filter\<close>

text \<open>The payload with a given execution result; every payload is one.\<close>

definition payload_of :: "execution_result_rec \<Rightarrow> payload" where
  "payload_of er = \<lparr>body = \<lparr>DeployProcessed = \<lparr>execution_result = er\<rparr>\<rparr>\<rparr>"

text \<open>The payload of a successful execution with the transforms \<open>ts\<close>.\<close>

definition success_payload :: "transform_rec list \<Rightarrow> payload" where
  "success_payload ts =
     payload_of \<lparr>Failure = None, Success = Some \<lparr>effect = \<lparr>transforms = ts\<rparr>\<rparr>\<rparr>"

text \<open>Reading a property of a returned object, and the elements of a returned array.\<close>

definition js_get :: "jsval \<Rightarrow> string \<Rightarrow> jsval" where
  "js_get x k =
     (case x of
        JObj ps \<Rightarrow> (case map_of ps k of None \<Rightarrow> JUndefined | Some v \<Rightarrow> v)
      | _ \<Rightarrow> JUndefined)"

fun elements :: "jsval \<Rightarrow> jsval list" where
  "elements (JArr xs) = xs"
| "elements _ = []"


text \<open>
  The specification's filter, written from its steps 2 to 4 and not from the
  code: a record is a candidate when its key begins with \<^verbatim>\<open>dictionary\<close>, its
  transform carries the write tag and the pre-parsed field is null; its bytes
  must decode to a present Option wrapping a map; the three fields must be
  present, the key re-derived from \<^verbatim>\<open>event_id\<close> must equal the record's key,
  the package hash must equal the subscription's and the event type must be one
  of the subscription's names. \<open>Some e\<close> is the element a surviving candidate
  contributes.
\<close>

definition surviving_event :: "sdk \<Rightarrow> subscription \<Rightarrow> transform_rec \<Rightarrow> jsval option" where
  "surviving_event s sub val =
     (case transform val of
        OtherTransform _ \<Rightarrow> None
      | WriteCLValue w \<Rightarrow>
          if prefix ''dictionary'' (key val) \<and> parsed w = JNull then
            (case fromBytesWithType s (Buffer_from_hex (bytes w)) of
               Inr (CLOption (Some (CLMap m))) \<Rightarrow>
                 (case (CLMap_get m ''event_id'',
                        CLMap_get m ''contract_package_hash'',
                        CLMap_get m ''event_type'') of
                    (Some i, Some h, Some ev) \<Rightarrow>
                      if getDictionaryKeyHash s (eventsURef sub) (value_of i) = Inr (key val)
                         \<and> value_of h = JStr (contractPackageHash sub)
                         \<and> value_of ev \<in> set (map JStr (eventNames sub))
                      then Some (JObj [(''name'', value_of ev), (''clValue'', JCLValue (CLMap m))])
                      else None
                  | _ \<Rightarrow> None)
             | _ \<Rightarrow> None)
          else None)"

text \<open>
  The shape of an element of \<^verbatim>\<open>data\<close>: the object literal of the callback,
  with a subscribed event name and the decoded map.
\<close>

definition event_shape :: "subscription \<Rightarrow> jsval \<Rightarrow> bool" where
  "event_shape sub e =
     (\<exists>n m. e = JObj [(''name'', JStr n), (''clValue'', JCLValue (CLMap m))] \<and>
        n \<in> set (eventNames sub))"

text \<open>\<^verbatim>\<open>Object.keys\<close> of a returned object.\<close>

fun property_names :: "jsval \<Rightarrow> string list" where
  "property_names (JObj ps) = map fst ps"
| "property_names _ = []"

subsection \<open>A concrete instance for evaluation\<close>

text \<open>
  Concrete collaborators on which the definitions can be evaluated. They are
  stand-ins, not the SDK: the reference decoder accepts \<^verbatim>\<open>uref-\<close>, 64 hex
  digits and a suffix; the digest is the reversed input cut or padded to the
  length asked for (it is not BLAKE2b); the typed-value decoder knows the byte
  strings 00 to 08 and rejects every other one, the empty one included; an
  array gives one zero byte for each element.
\<close>

definition sample_fromFormattedStr :: "string \<Rightarrow> string + cluref" where
  "sample_fromFormattedStr str =
     (if \<not> prefix ''uref-'' str then Inl ''Prefix is not uref-''
      else
        (let addr = Buffer_from_hex (take 64 (drop 5 str)) in
         if length addr \<noteq> 32 then Inl ''Invalid length of address''
         else Inr \<lparr>data = addr, accessRights = 7\<rparr>))"

definition sample_digest :: "byte list \<Rightarrow> nat \<Rightarrow> byte list" where
  "sample_digest input outlen = take outlen (rev input @ replicate outlen 0)"

definition sample_map :: "(clvalue \<times> clvalue) list" where
  "sample_map =
     [(CLString ''contract_package_hash'', CLString ''c0ffee''),
      (CLString ''event_id'', CLString ''42''),
      (CLString ''event_type'', CLString ''cep47_mint_one''),
      (CLString ''recipient'', CLOther 0)]"

definition sample_map_no_id :: "(clvalue \<times> clvalue) list" where
  "sample_map_no_id = [(CLString ''event_type'', CLString ''cep47_mint_one'')]"

text \<open>Maps whose \<^verbatim>\<open>event_id\<close> is a number, and an (empty) map.\<close>

definition sample_map_numeric_id :: "(clvalue \<times> clvalue) list" where
  "sample_map_numeric_id =
     [(CLString ''contract_package_hash'', CLString ''c0ffee''),
      (CLString ''event_id'', CLOther 42),
      (CLString ''event_type'', CLString ''cep47_mint_one'')]"

definition sample_map_map_id :: "(clvalue \<times> clvalue) list" where
  "sample_map_map_id =
     [(CLString ''contract_package_hash'', CLString ''c0ffee''),
      (CLString ''event_id'', CLMap []),
      (CLString ''event_type'', CLString ''cep47_mint_one'')]"

definition sample_decode :: "byte list \<Rightarrow> string + clvalue" where
  "sample_decode bs =
     (if bs = [1] then Inr (CLOption (Some (CLMap sample_map)))
      else if bs = [0] then Inr (CLOption None)
      else if bs = [2] then Inr (CLString ''42'')
      else if bs = [3] then Inr (CLOption (Some (CLOther 5)))
      else if bs = [4] then Inr (CLOption (Some (CLMap sample_map_no_id)))
      else if bs = [5] then Inr (CLMap sample_map)
      else if bs = [6] then Inr (CLOption (Some (CLMap sample_map_numeric_id)))
      else if bs = [7] then Inr (CLOption (Some (CLMap sample_map_map_id)))
      else if bs = [8] then Inr (CLList [CLString ''42''])
      else Inl ''EarlyEndOfStream'')"

definition sample_arrayBytes :: "jsval \<Rightarrow> byte list" where
  "sample_arrayBytes a =
     (case a of
        JArr xs \<Rightarrow> replicate (length xs) 0
      | JValueOf (CLMap m) \<Rightarrow> replicate (length m) 0
      | JValueOf (CLList xs) \<Rightarrow> replicate (length xs) 0
      | JValueOf (CLTuple xs) \<Rightarrow> replicate (length xs) 0
      | _ \<Rightarrow> [])"

definition sample_sdk :: sdk where
  "sample_sdk =
     \<lparr>fromFormattedStr = sample_fromFormattedStr,
      blake2b = sample_digest,
      fromBytesWithType = sample_decode,
      arrayBytes = sample_arrayBytes\<rparr>"

definition sample_uref :: string where
  "sample_uref = ''uref-000102030405060708090a0b0c0d0e0f101112131415161718191a1b1c1d1e1f-007''"

definition sample_ref :: cluref where
  "sample_ref =
     \<lparr>data = [0, 1, 2, 3, 4, 5, 6, 7, 8, 9, 10, 11, 12, 13, 14, 15, 16, 17, 18, 19, 20,
              21, 22, 23, 24, 25, 26, 27, 28, 29, 30, 31],
      accessRights = 7\<rparr>"

definition sample_sub :: subscription where
  "sample_sub =
     \<lparr>contractPackageHash = ''c0ffee'',
      eventNames = [MintOne, BurnOne],
      eventsURef = sample_uref\<rparr>"

text \<open>The key the stand-in digest gives for \<open>sample_uref\<close> and the event id \<^verbatim>\<open>42\<close>.\<close>

definition sample_key :: string where
  "sample_key = ''dictionary-32341f1e1d1c1b1a191817161514131211100f0e0d0c0b0a0908070605040302''"

text \<open>A genuine event write, and the element it contributes.\<close>

definition mint_transform :: transform_rec where
  "mint_transform =
     \<lparr>key = sample_key, transform = WriteCLValue \<lparr>bytes = ''01'', parsed = JNull\<rparr>\<rparr>"

definition mint_event :: jsval where
  "mint_event =
     JObj [(''name'', JStr ''cep47_mint_one''), (''clValue'', JCLValue (CLMap sample_map))]"

text \<open>A candidate whose bytes do not decode: no typed value has the empty encoding.\<close>

definition malformed_transform :: transform_rec where
  "malformed_transform =
     \<lparr>key = ''dictionary-00'', transform = WriteCLValue \<lparr>bytes = '''', parsed = JNull\<rparr>\<rparr>"

text \<open>A candidate whose bytes decode to the empty Option.\<close>

definition none_transform :: transform_rec where
  "none_transform =
     \<lparr>key = ''dictionary-01'', transform = WriteCLValue \<lparr>bytes = ''00'', parsed = JNull\<rparr>\<rparr>"

text \<open>Candidates whose bytes decode to a string, to an Option wrapping a scalar, and to
  an Option wrapping a map that has no \<^verbatim>\<open>event_id\<close>.\<close>

definition text_transform :: transform_rec where
  "text_transform =
     \<lparr>key = ''dictionary-03'', transform = WriteCLValue \<lparr>bytes = ''02'', parsed = JNull\<rparr>\<rparr>"

definition scalar_transform :: transform_rec where
  "scalar_transform =
     \<lparr>key = ''dictionary-04'', transform = WriteCLValue \<lparr>bytes = ''03'', parsed = JNull\<rparr>\<rparr>"

definition no_id_transform :: transform_rec where
  "no_id_transform =
     \<lparr>key = ''dictionary-05'', transform = WriteCLValue \<lparr>bytes = ''04'', parsed = JNull\<rparr>\<rparr>"

text \<open>
  Candidates whose bytes decode to a map outside an Option, to a list, to an
  Option wrapping a map whose \<^verbatim>\<open>event_id\<close> is a number, and to one whose
  \<^verbatim>\<open>event_id\<close> is a map.
\<close>

definition bare_map_transform :: transform_rec where
  "bare_map_transform =
     \<lparr>key = ''dictionary-06'', transform = WriteCLValue \<lparr>bytes = ''05'', parsed = JNull\<rparr>\<rparr>"

definition list_transform :: transform_rec where
  "list_transform =
     \<lparr>key = ''dictionary-09'', transform = WriteCLValue \<lparr>bytes = ''08'', parsed = JNull\<rparr>\<rparr>"

definition numeric_id_transform :: transform_rec where
  "numeric_id_transform =
     \<lparr>key = ''dictionary-07'', transform = WriteCLValue \<lparr>bytes = ''06'', parsed = JNull\<rparr>\<rparr>"

definition map_id_transform :: transform_rec where
  "map_id_transform =
     \<lparr>key = ''dictionary-08'', transform = WriteCLValue \<lparr>bytes = ''07'', parsed = JNull\<rparr>\<rparr>"

text \<open>The genuine event's bytes written under another dictionary key.\<close>

definition spoofed_transform :: transform_rec where
  "spoofed_transform =
     \<lparr>key = ''dictionary-ffff'', transform = WriteCLValue \<lparr>bytes = ''01'', parsed = JNull\<rparr>\<rparr>"

text \<open>A write whose \<^verbatim>\<open>parsed\<close> property is missing, with bytes that do not decode.\<close>

definition unparsed_missing_transform :: transform_rec where
  "unparsed_missing_transform =
     \<lparr>key = ''dictionary-02'',
      transform = WriteCLValue \<lparr>bytes = ''zz'', parsed = JUndefined\<rparr>\<rparr>"

text \<open>An execution result that has both members.\<close>

definition both_result :: execution_result_rec where
  "both_result =
     \<lparr>Failure = Some \<lparr>error_message = ''Out of gas''\<rparr>,
      Success = Some \<lparr>effect = \<lparr>transforms = [malformed_transform, mint_transform]\<rparr>\<rparr>\<rparr>"

definition failed_result :: execution_result_rec where
  "failed_result = \<lparr>Failure = Some \<lparr>error_message = ''Out of gas''\<rparr>, Success = None\<rparr>"


section \<open>Properties\<close>

subsection \<open>Hex rendering\<close>

lemma unhex_hex_digit: "n < 16 \<Longrightarrow> unhex (hex_digit n) = Some n"
proof -
  assume "n < 16"
  then have "n \<in> set [0..<16]" by simp
  moreover have "list_all (\<lambda>k. unhex (hex_digit k) = Some k) [0..<16]"
    by code_simp
  ultimately show ?thesis unfolding list_all_iff by blast
qed

lemma hex_digit_in: "hex_digit n \<in> set ''0123456789abcdef''"
  unfolding hex_digit_def by (rule nth_mem) simp

lemma length_toString_hex: "length (toString_hex bs) = 2 * length bs"
  by (induction bs) simp_all

lemma set_toString_hex: "set (toString_hex bs) \<subseteq> set ''0123456789abcdef''"
proof -
  define S where "S = set ''0123456789abcdef''"
  have d: "hex_digit n \<in> S" for n
    unfolding S_def by (rule hex_digit_in)
  have "set (toString_hex bs) \<subseteq> S"
    by (induction bs) (simp_all add: d)
  then show ?thesis by (simp only: S_def)
qed

lemma byte_div_16: "unat (b :: byte) div 16 < 16"
proof -
  have "unat b < 2 ^ LENGTH(8)" by (rule unsigned_less)
  then have "unat b < 256" by simp
  then show ?thesis by simp
qed

text \<open>Reading the rendering back gives the bytes: the rendering loses nothing.\<close>

lemma Buffer_from_hex_toString_hex: "Buffer_from_hex (toString_hex bs) = bs"
proof (induction bs)
  case Nil
  show ?case by simp
next
  case (Cons b bs)
  have "unhex (hex_digit (unat b div 16)) = Some (unat b div 16)"
    by (rule unhex_hex_digit) (rule byte_div_16)
  moreover have "unhex (hex_digit (unat b mod 16)) = Some (unat b mod 16)"
    by (rule unhex_hex_digit) simp
  moreover have "(of_nat (16 * (unat b div 16) + unat b mod 16) :: byte) = b"
    by simp
  ultimately show ?case using Cons.IH by simp
qed

text \<open>On ASCII text the UTF-8 bytes are the characters' codes.\<close>

lemma utf8_ascii:
  "(\<forall>c \<in> set str. (of_char c :: nat) < 128) \<Longrightarrow> utf8 str = map (\<lambda>c. of_nat (of_char c)) str"
  by (induction str) (simp_all add: utf8_def utf8_char_def)



subsection \<open>The scan\<close>

lemma reduce_append:
  "reduce f (xs @ ys) acc =
     (case reduce f xs acc of Inl e \<Rightarrow> Inl e | Inr acc' \<Rightarrow> reduce f ys acc')"
  by (induction xs arbitrary: acc) (auto split: sum.splits)

lemma payload_of_execution_result:
  "payload_of (execution_result (DeployProcessed (body v))) = v"
  by (cases v, cases "body v", cases "DeployProcessed (body v)") (simp add: payload_of_def)

lemma some_or_null_Inl: "(\<exists>e. some_or_null d = Inl e) \<longleftrightarrow> array_or_undefined d"
  by (cases d rule: some_or_null.cases) simp_all

lemma some_or_null_Some: "some_or_null d = Inr (Some c) \<longleftrightarrow> d = CLOption (Some c)"
  by (cases d rule: some_or_null.cases) simp_all

lemma some_or_null_None:
  "some_or_null d = Inr None \<longleftrightarrow>
     d = CLOption None \<or> (\<exists>str. d = CLString str) \<or> (\<exists>n. d = CLOther n)"
  by (cases d rule: some_or_null.cases) simp_all

lemma callback_not_candidate: "\<not> is_candidate val \<Longrightarrow> callback s sub acc val = Inr acc"
  by (simp add: callback_def)

text \<open>The callback on a candidate, by what its bytes decode to.\<close>

lemma callback_decode_error:
  assumes "is_candidate val" and "transform val = WriteCLValue w"
    and "fromBytesWithType s (Buffer_from_hex (bytes w)) = Inl msg"
  shows "callback s sub acc val = Inl (UnwrapError msg)"
  using assms by (simp add: callback_def)

lemma callback_array_or_undefined:
  assumes "is_candidate val" and "transform val = WriteCLValue w"
    and "fromBytesWithType s (Buffer_from_hex (bytes w)) = Inr d"
    and "array_or_undefined d"
  shows "\<exists>t. callback s sub acc val = Inl (TypeError t)"
  using assms by (cases d rule: some_or_null.cases) (simp_all add: callback_def)

lemma callback_map:
  assumes "is_candidate val" and "transform val = WriteCLValue w"
    and "fromBytesWithType s (Buffer_from_hex (bytes w)) = Inr (CLOption (Some (CLMap m)))"
  shows "callback s sub acc val = check_map s sub acc val m"
  using assms by (simp add: callback_def)

lemma callback_other_shape:
  assumes "is_candidate val" and "transform val = WriteCLValue w"
    and "fromBytesWithType s (Buffer_from_hex (bytes w)) = Inr d"
    and "\<not> array_or_undefined d" and "\<forall>m. d \<noteq> CLOption (Some (CLMap m))"
  shows "callback s sub acc val = Inr acc"
proof (cases "some_or_null d")
  case (Inl e)
  then have "array_or_undefined d" using some_or_null_Inl [of d] by blast
  with assms(4) show ?thesis by simp
next
  case (Inr opt)
  show ?thesis
  proof (cases opt)
    case None
    with Inr assms show ?thesis by (simp add: callback_def)
  next
    case (Some c)
    with Inr have "d = CLOption (Some c)" by (simp add: some_or_null_Some)
    with assms(5) have "\<forall>m. c \<noteq> CLMap m" by simp
    with Inr Some assms show ?thesis
      by (cases c) (simp_all add: callback_def)
  qed
qed

lemma check_map_acc:
  "check_map s sub acc val m =
     (case check_map s sub [] val m of Inl e \<Rightarrow> Inl e | Inr evs \<Rightarrow> Inr (acc @ evs))"
  by (simp add: check_map_def split: option.splits sum.splits)

text \<open>
  The callback only appends: what it adds for a transform does not depend on
  what the scan has gathered before.
\<close>

lemma callback_acc:
  "callback s sub acc val =
     (case callback s sub [] val of Inl e \<Rightarrow> Inl e | Inr evs \<Rightarrow> Inr (acc @ evs))"
proof (cases "is_candidate val")
  case False
  then show ?thesis by (simp add: callback_def)
next
  case True
  then obtain w where w: "transform val = WriteCLValue w"
    by (auto simp: is_candidate_def split: transform_kind.splits)
  show ?thesis
  proof (cases "fromBytesWithType s (Buffer_from_hex (bytes w))")
    case (Inl msg)
    then show ?thesis using True w by (simp add: callback_decode_error)
  next
    case (Inr d)
    show ?thesis
    proof (cases "array_or_undefined d")
      case True
      then obtain t where "callback s sub acc val = Inl (TypeError t)"
        using callback_array_or_undefined [OF \<open>is_candidate val\<close> w Inr] by blast
      moreover from True obtain t' where "callback s sub [] val = Inl (TypeError t')"
        using callback_array_or_undefined [OF \<open>is_candidate val\<close> w Inr] by blast
      moreover have "callback s sub a val = callback s sub [] val" for a
        using True \<open>is_candidate val\<close> w Inr
        by (cases d rule: some_or_null.cases) (simp_all add: callback_def)
      ultimately show ?thesis by simp
    next
      case False
      show ?thesis
      proof (cases "\<exists>m. d = CLOption (Some (CLMap m))")
        case True
        then obtain m where "d = CLOption (Some (CLMap m))" by blast
        with \<open>is_candidate val\<close> w Inr have "callback s sub a val = check_map s sub a val m" for a
          by (simp add: callback_map)
        then show ?thesis using check_map_acc [of s sub acc val m] by simp
      next
        case nomap: False
        then have "callback s sub a val = Inr a" for a
          using callback_other_shape [OF \<open>is_candidate val\<close> w Inr False] by blast
        then show ?thesis by simp
      qed
    qed
  qed
qed

lemma check_map_surviving:
  assumes "is_candidate val" and "transform val = WriteCLValue w"
    and "fromBytesWithType s (Buffer_from_hex (bytes w)) = Inr (CLOption (Some (CLMap m)))"
    and "check_map s sub [] val m = Inr evs"
  shows "evs = (case surviving_event s sub val of None \<Rightarrow> [] | Some e \<Rightarrow> [e])"
  using assms
  by (auto simp: check_map_def surviving_event_def is_candidate_def
      split: option.splits sum.splits if_splits)

text \<open>Where the callback returns, it adds what the specification's filter lets through.\<close>

lemma callback_surviving:
  assumes "callback s sub [] val = Inr evs"
  shows "evs = (case surviving_event s sub val of None \<Rightarrow> [] | Some e \<Rightarrow> [e])"
proof (cases "is_candidate val")
  case False
  then have "surviving_event s sub val = None"
    by (auto simp: surviving_event_def is_candidate_def split: transform_kind.splits)
  with False assms show ?thesis by (simp add: callback_def)
next
  case True
  then obtain w where w: "transform val = WriteCLValue w"
    by (auto simp: is_candidate_def split: transform_kind.splits)
  show ?thesis
  proof (cases "fromBytesWithType s (Buffer_from_hex (bytes w))")
    case (Inl msg)
    with True w assms show ?thesis by (simp add: callback_decode_error)
  next
    case (Inr d)
    show ?thesis
    proof (cases "\<exists>m. d = CLOption (Some (CLMap m))")
      case True
      then obtain m where d: "d = CLOption (Some (CLMap m))" by blast
      with \<open>is_candidate val\<close> w Inr assms have "check_map s sub [] val m = Inr evs"
        by (simp add: callback_map)
      with \<open>is_candidate val\<close> w Inr d show ?thesis
        by (intro check_map_surviving [of val w s m sub evs]) simp_all
    next
      case False
      then have none: "surviving_event s sub val = None"
        using w Inr by (auto simp: surviving_event_def split: clvalue.splits option.splits)
      have "\<not> array_or_undefined d"
        using callback_array_or_undefined [OF \<open>is_candidate val\<close> w Inr, of sub "[]"] assms
        by auto
      then have "callback s sub [] val = Inr []"
        using False callback_other_shape [OF \<open>is_candidate val\<close> w Inr] by blast
      with none assms show ?thesis by simp
    qed
  qed
qed






text \<open>A transform that the callback leaves alone can be dropped from the scan.\<close>

lemma reduce_skip:
  assumes "\<And>acc. callback s sub acc val = Inr acc"
  shows "reduce (callback s sub) (pre @ val # post) acc0 = reduce (callback s sub) (pre @ post) acc0"
  using assms by (simp add: reduce_append split: sum.splits)

lemma parseEvent_failure:
  "Failure er = Some f \<Longrightarrow>
     parseEvent s sub (payload_of er) =
       Inr (JObj [(''error'', JStr (error_message f)), (''success'', JBool False)])"
  by (simp add: parseEvent_def payload_of_def)

lemma parseEvent_success:
  "parseEvent s sub (success_payload ts) =
     (case reduce (callback s sub) ts [] of
        Inl e \<Rightarrow> Inl e
      | Inr acc \<Rightarrow>
          Inr (JObj [(''error'', JNull), (''success'', JBool (acc \<noteq> [])), (''data'', JArr acc)]))"
  by (simp add: parseEvent_def success_payload_def payload_of_def split: sum.splits)

lemma parseEvent_skip:
  assumes "\<And>acc. callback s sub acc val = Inr acc"
  shows "parseEvent s sub (success_payload (pre @ val # post)) =
         parseEvent s sub (success_payload (pre @ post))"
  using reduce_skip [of s sub val pre post "[]", OF assms] by (simp add: parseEvent_success)



lemma success_payload_eq:
  assumes "Failure (execution_result (DeployProcessed (body v))) = None"
    and "Success (execution_result (DeployProcessed (body v))) = Some ok"
  shows "v = success_payload (transforms (effect ok))"
proof -
  obtain er where er: "er = execution_result (DeployProcessed (body v))" by simp
  have "er = \<lparr>Failure = None, Success = Some \<lparr>effect = \<lparr>transforms = transforms (effect ok)\<rparr>\<rparr>\<rparr>"
    using assms er by (cases er, cases ok, cases "effect ok") simp
  then have "payload_of er = success_payload (transforms (effect ok))"
    by (simp add: success_payload_def)
  then show ?thesis using er by (simp add: payload_of_execution_result)
qed

text \<open>Every element the callback adds has the shape \<open>event_shape\<close>.\<close>

lemma surviving_event_shape: "surviving_event s sub val = Some e \<Longrightarrow> event_shape sub e"
  by (auto simp: surviving_event_def event_shape_def
      split: transform_kind.splits if_splits sum.splits clvalue.splits option.splits)

lemma reduce_callback_shape:
  "reduce (callback s sub) ts acc = Inr acc' \<Longrightarrow> \<forall>e \<in> set acc. event_shape sub e \<Longrightarrow>
     \<forall>e \<in> set acc'. event_shape sub e"
proof (induction ts arbitrary: acc)
  case Nil
  then show ?case by simp
next
  case (Cons val ts)
  from Cons.prems(1) obtain mid where mid: "callback s sub acc val = Inr mid"
    and rest: "reduce (callback s sub) ts mid = Inr acc'"
    by (auto split: sum.splits)
  from mid obtain evs where evs: "callback s sub [] val = Inr evs" and "mid = acc @ evs"
    using callback_acc [of s sub acc val] by (auto split: sum.splits)
  from callback_surviving [OF evs] have "\<forall>e \<in> set evs. event_shape sub e"
    by (auto split: option.splits dest: surviving_event_shape)
  with Cons.prems(2) \<open>mid = acc @ evs\<close> have "\<forall>e \<in> set mid. event_shape sub e" by auto
  with rest show ?case by (rule Cons.IH)
qed


subsection \<open>Evaluating the concrete instance\<close>

lemma sample_uref_ok: "fromFormattedStr sample_sdk sample_uref = Inr sample_ref"
  by (simp add: sample_sdk_def sample_uref_def sample_fromFormattedStr_def unhex_def
      sample_ref_def)

lemma sample_key_eq:
  "getDictionaryKeyHash sample_sdk sample_uref (JStr ''42'') = Inr sample_key"
  by (simp add: getDictionaryKeyHash_def sample_uref_ok)
     (simp add: sample_sdk_def sample_digest_def utf8_def utf8_char_def hex_digit_def
       sample_ref_def sample_key_def)

lemma sample_get:
  "CLMap_get sample_map ''event_id'' = Some (CLString ''42'')"
  "CLMap_get sample_map ''contract_package_hash'' = Some (CLString ''c0ffee'')"
  "CLMap_get sample_map ''event_type'' = Some (CLString ''cep47_mint_one'')"
  by (simp_all add: sample_map_def)

lemma sample_candidates:
  "is_candidate mint_transform" "is_candidate malformed_transform"
  "is_candidate none_transform" "is_candidate text_transform"
  "is_candidate scalar_transform" "is_candidate no_id_transform"
  "is_candidate bare_map_transform" "is_candidate list_transform"
  "is_candidate numeric_id_transform" "is_candidate map_id_transform"
  "is_candidate spoofed_transform"
  by (simp_all add: is_candidate_def mint_transform_def malformed_transform_def
      none_transform_def text_transform_def scalar_transform_def no_id_transform_def
      bare_map_transform_def list_transform_def numeric_id_transform_def
      map_id_transform_def spoofed_transform_def sample_key_def)

lemma sample_transforms:
  "transform mint_transform = WriteCLValue \<lparr>bytes = ''01'', parsed = JNull\<rparr>"
  "transform malformed_transform = WriteCLValue \<lparr>bytes = '''', parsed = JNull\<rparr>"
  "transform none_transform = WriteCLValue \<lparr>bytes = ''00'', parsed = JNull\<rparr>"
  "transform text_transform = WriteCLValue \<lparr>bytes = ''02'', parsed = JNull\<rparr>"
  "transform scalar_transform = WriteCLValue \<lparr>bytes = ''03'', parsed = JNull\<rparr>"
  "transform no_id_transform = WriteCLValue \<lparr>bytes = ''04'', parsed = JNull\<rparr>"
  "transform bare_map_transform = WriteCLValue \<lparr>bytes = ''05'', parsed = JNull\<rparr>"
  "transform list_transform = WriteCLValue \<lparr>bytes = ''08'', parsed = JNull\<rparr>"
  "transform numeric_id_transform = WriteCLValue \<lparr>bytes = ''06'', parsed = JNull\<rparr>"
  "transform map_id_transform = WriteCLValue \<lparr>bytes = ''07'', parsed = JNull\<rparr>"
  "transform spoofed_transform = WriteCLValue \<lparr>bytes = ''01'', parsed = JNull\<rparr>"
  by (simp_all add: mint_transform_def malformed_transform_def
      none_transform_def text_transform_def scalar_transform_def no_id_transform_def
      bare_map_transform_def list_transform_def numeric_id_transform_def
      map_id_transform_def spoofed_transform_def)

lemma sample_decode_simps:
  "fromBytesWithType sample_sdk [] = Inl ''EarlyEndOfStream''"
  "fromBytesWithType sample_sdk [0] = Inr (CLOption None)"
  "fromBytesWithType sample_sdk [1] = Inr (CLOption (Some (CLMap sample_map)))"
  "fromBytesWithType sample_sdk [2] = Inr (CLString ''42'')"
  "fromBytesWithType sample_sdk [3] = Inr (CLOption (Some (CLOther 5)))"
  "fromBytesWithType sample_sdk [4] = Inr (CLOption (Some (CLMap sample_map_no_id)))"
  "fromBytesWithType sample_sdk [5] = Inr (CLMap sample_map)"
  "fromBytesWithType sample_sdk [6] = Inr (CLOption (Some (CLMap sample_map_numeric_id)))"
  "fromBytesWithType sample_sdk [7] = Inr (CLOption (Some (CLMap sample_map_map_id)))"
  "fromBytesWithType sample_sdk [8] = Inr (CLList [CLString ''42''])"
  by (simp_all add: sample_sdk_def sample_decode_def)

lemma sample_decoded:
  "fromBytesWithType sample_sdk (Buffer_from_hex (bytes \<lparr>bytes = ''01'', parsed = JNull\<rparr>)) =
     Inr (CLOption (Some (CLMap sample_map)))"
  "fromBytesWithType sample_sdk (Buffer_from_hex (bytes \<lparr>bytes = '''', parsed = JNull\<rparr>)) =
     Inl ''EarlyEndOfStream''"
  "fromBytesWithType sample_sdk (Buffer_from_hex (bytes \<lparr>bytes = ''00'', parsed = JNull\<rparr>)) =
     Inr (CLOption None)"
  "fromBytesWithType sample_sdk (Buffer_from_hex (bytes \<lparr>bytes = ''02'', parsed = JNull\<rparr>)) =
     Inr (CLString ''42'')"
  "fromBytesWithType sample_sdk (Buffer_from_hex (bytes \<lparr>bytes = ''03'', parsed = JNull\<rparr>)) =
     Inr (CLOption (Some (CLOther 5)))"
  "fromBytesWithType sample_sdk (Buffer_from_hex (bytes \<lparr>bytes = ''04'', parsed = JNull\<rparr>)) =
     Inr (CLOption (Some (CLMap sample_map_no_id)))"
  "fromBytesWithType sample_sdk (Buffer_from_hex (bytes \<lparr>bytes = ''05'', parsed = JNull\<rparr>)) =
     Inr (CLMap sample_map)"
  "fromBytesWithType sample_sdk (Buffer_from_hex (bytes \<lparr>bytes = ''08'', parsed = JNull\<rparr>)) =
     Inr (CLList [CLString ''42''])"
  "fromBytesWithType sample_sdk (Buffer_from_hex (bytes \<lparr>bytes = ''06'', parsed = JNull\<rparr>)) =
     Inr (CLOption (Some (CLMap sample_map_numeric_id)))"
  "fromBytesWithType sample_sdk (Buffer_from_hex (bytes \<lparr>bytes = ''07'', parsed = JNull\<rparr>)) =
     Inr (CLOption (Some (CLMap sample_map_map_id)))"
  by (simp_all add: unhex_def sample_decode_simps)

lemma callback_mint:
  "callback sample_sdk sample_sub acc mint_transform = Inr (acc @ [mint_event])"
proof -
  have "callback sample_sdk sample_sub acc mint_transform =
      check_map sample_sdk sample_sub acc mint_transform sample_map"
    by (rule callback_map [OF sample_candidates(1) sample_transforms(1) sample_decoded(1)])
  then show ?thesis
    by (simp add: check_map_def sample_get sample_sub_def sample_key_eq mint_event_def
        MintOne_def mint_transform_def)
qed

lemma callback_malformed:
  "callback sample_sdk sample_sub acc malformed_transform = Inl (UnwrapError ''EarlyEndOfStream'')"
  by (rule callback_decode_error [OF sample_candidates(2) sample_transforms(2) sample_decoded(2)])




lemma parseEvent_mint:
  "parseEvent sample_sdk sample_sub (success_payload [mint_transform]) =
     Inr (JObj [(''error'', JNull), (''success'', JBool True), (''data'', JArr [mint_event])])"
  by (simp add: parseEvent_success callback_mint)


section \<open>The claims\<close>

text \<open>
  C1. For every seed reference that the reference decoder accepts and every
  string \<open>eventId\<close>, \<^verbatim>\<open>getDictionaryKeyHash\<close> returns \<^verbatim>\<open>dictionary-\<close> followed
  by the hex rendering of the 32-byte digest of the reference's bytes followed
  at once by the bytes of \<open>eventId\<close>: no separator, no length prefix. The
  rendering is lowercase hexadecimal, two digits a byte, and reads back to the
  digest; on ASCII ids the bytes are the characters' codes.
\<close>

theorem getDictionaryKeyHash_digest:
  assumes "fromFormattedStr s seedRef = Inr r"
  shows "getDictionaryKeyHash s seedRef (JStr eventId) =
           Inr (''dictionary-'' @ toString_hex (blake2b s (data r @ utf8 eventId) 32))
       \<and> Buffer_from_hex (toString_hex (blake2b s (data r @ utf8 eventId) 32)) =
           blake2b s (data r @ utf8 eventId) 32
       \<and> set (toString_hex (blake2b s (data r @ utf8 eventId) 32)) \<subseteq> set ''0123456789abcdef''
       \<and> length (toString_hex (blake2b s (data r @ utf8 eventId) 32)) =
           2 * length (blake2b s (data r @ utf8 eventId) 32)
       \<and> ((\<forall>c \<in> set eventId. (of_char c :: nat) < 128) \<longrightarrow>
            utf8 eventId = map (\<lambda>c. of_nat (of_char c)) eventId)"
proof -
  have "getDictionaryKeyHash s seedRef (JStr eventId) =
      Inr (''dictionary-'' @ toString_hex (blake2b s (data r @ utf8 eventId) 32))"
    using assms by (simp add: getDictionaryKeyHash_def)
  then show ?thesis
    using Buffer_from_hex_toString_hex set_toString_hex length_toString_hex utf8_ascii
    by blast
qed

theorem getDictionaryKeyHash_digest_witness:
  "fromFormattedStr sample_sdk sample_uref = Inr sample_ref
   \<and> getDictionaryKeyHash sample_sdk sample_uref (JStr ''42'') =
       Inr ''dictionary-32341f1e1d1c1b1a191817161514131211100f0e0d0c0b0a0908070605040302''"
proof -
  have "getDictionaryKeyHash sample_sdk sample_uref (JStr ''42'') =
      Inr (''dictionary-'' @
        toString_hex (blake2b sample_sdk (data sample_ref @ utf8 ''42'') 32))"
    using getDictionaryKeyHash_digest [OF sample_uref_ok, of "''42''"] by blast
  then show ?thesis
    by (simp add: sample_uref_ok)
       (simp add: sample_sdk_def sample_digest_def utf8_def utf8_char_def hex_digit_def
         sample_ref_def)
qed






text \<open>
  C4. For a candidate whose decoded map has \<^verbatim>\<open>event_id\<close>,
  \<^verbatim>\<open>contract_package_hash\<close> and \<^verbatim>\<open>event_type\<close>: the callback adds an element
  only if the key derived from the subscription's seed reference and the
  \<^verbatim>\<open>event_id\<close> is the transform's own key; when the derived key differs, the
  candidate is discarded, and a payload of that one transform gives the clean
  miss.
\<close>

theorem provenance_check:
  assumes "is_candidate val" and "transform val = WriteCLValue w"
    and "fromBytesWithType s (Buffer_from_hex (bytes w)) = Inr (CLOption (Some (CLMap m)))"
    and "CLMap_get m ''event_id'' = Some i"
    and "CLMap_get m ''contract_package_hash'' = Some h"
    and "CLMap_get m ''event_type'' = Some ev"
  shows "(\<forall>acc acc'. callback s sub acc val = Inr acc' \<and> acc' \<noteq> acc \<longrightarrow>
            getDictionaryKeyHash s (eventsURef sub) (value_of i) = Inr (key val))
       \<and> (\<forall>e. surviving_event s sub val = Some e \<longrightarrow>
            getDictionaryKeyHash s (eventsURef sub) (value_of i) = Inr (key val))
       \<and> (\<forall>k. getDictionaryKeyHash s (eventsURef sub) (value_of i) = Inr k \<and> k \<noteq> key val \<longrightarrow>
            (\<forall>acc. callback s sub acc val = Inr acc) \<and>
            parseEvent s sub (success_payload [val]) =
              Inr (JObj [(''error'', JNull), (''success'', JBool False), (''data'', JArr [])]))"
proof (intro conjI allI impI)
  fix acc acc'
  assume "callback s sub acc val = Inr acc' \<and> acc' \<noteq> acc"
  then show "getDictionaryKeyHash s (eventsURef sub) (value_of i) = Inr (key val)"
    using assms by (auto simp: callback_def check_map_def split: sum.splits if_splits)
next
  fix e
  assume "surviving_event s sub val = Some e"
  then show "getDictionaryKeyHash s (eventsURef sub) (value_of i) = Inr (key val)"
    using assms by (auto simp: surviving_event_def is_candidate_def split: if_splits)
next
  fix k acc
  assume "getDictionaryKeyHash s (eventsURef sub) (value_of i) = Inr k \<and> k \<noteq> key val"
  then show "callback s sub acc val = Inr acc"
    using assms by (simp add: callback_def check_map_def)
next
  fix k
  assume "getDictionaryKeyHash s (eventsURef sub) (value_of i) = Inr k \<and> k \<noteq> key val"
  then have "callback s sub [] val = Inr []"
    using assms by (simp add: callback_def check_map_def)
  then show "parseEvent s sub (success_payload [val]) =
      Inr (JObj [(''error'', JNull), (''success'', JBool False), (''data'', JArr [])])"
    by (simp add: parseEvent_success)
qed

theorem provenance_check_witness:
  "getDictionaryKeyHash sample_sdk (eventsURef sample_sub) (value_of (CLString ''42'')) =
     Inr sample_key
   \<and> sample_key \<noteq> key spoofed_transform
   \<and> parseEvent sample_sdk sample_sub (success_payload [spoofed_transform]) =
       Inr (JObj [(''error'', JNull), (''success'', JBool False), (''data'', JArr [])])"
proof -
  have c: "is_candidate spoofed_transform"
    and t: "transform spoofed_transform = WriteCLValue \<lparr>bytes = ''01'', parsed = JNull\<rparr>"
    by (simp_all add: is_candidate_def spoofed_transform_def)
  have d: "fromBytesWithType sample_sdk (Buffer_from_hex (bytes \<lparr>bytes = ''01'', parsed = JNull\<rparr>)) =
      Inr (CLOption (Some (CLMap sample_map)))"
    by (simp add: unhex_def sample_decode_simps)
  have k: "getDictionaryKeyHash sample_sdk (eventsURef sample_sub) (value_of (CLString ''42'')) =
      Inr sample_key"
    by (simp add: sample_sub_def sample_key_eq)
  have ne: "sample_key \<noteq> key spoofed_transform"
    by (simp add: sample_key_def spoofed_transform_def)
  show ?thesis
    using provenance_check [OF c t d sample_get(1) sample_get(2) sample_get(3), of sample_sub]
      k ne
    by blast
qed

text \<open>
  C5. For a payload whose execution result has the member \<^verbatim>\<open>Failure\<close> with
  message \<open>m\<close>, the extraction returns exactly \<^verbatim>\<open>{error: m, success: false}\<close>
  and scans nothing: the result is the same for every collaborator record, every
  subscription and every content of \<^verbatim>\<open>Success\<close>. For the message
  \<^verbatim>\<open>Out of gas\<close> the result is \<^verbatim>\<open>{error: "Out of gas", success: false}\<close>.
  Every payload is \<open>payload_of\<close> its execution result.
\<close>

theorem failure_short_circuit:
  assumes "Failure er = Some f"
  shows "parseEvent s sub (payload_of er) =
           Inr (JObj [(''error'', JStr (error_message f)), (''success'', JBool False)])
       \<and> (\<forall>s' sub' ok'. parseEvent s' sub' (payload_of (er\<lparr>Success := ok'\<rparr>)) =
            parseEvent s sub (payload_of er))
       \<and> (error_message f = ''Out of gas'' \<longrightarrow>
            parseEvent s sub (payload_of er) =
              Inr (JObj [(''error'', JStr ''Out of gas''), (''success'', JBool False)]))
       \<and> payload_of (execution_result (DeployProcessed (body v))) = v"
  using assms by (simp add: parseEvent_failure payload_of_execution_result)

theorem failure_short_circuit_witness:
  "Failure failed_result = Some \<lparr>error_message = ''Out of gas''\<rparr>
   \<and> parseEvent sample_sdk sample_sub (payload_of failed_result) =
       Inr (JObj [(''error'', JStr ''Out of gas''), (''success'', JBool False)])"
proof -
  have f: "Failure failed_result = Some \<lparr>error_message = ''Out of gas''\<rparr>"
    by (simp add: failed_result_def)
  show ?thesis
    using failure_short_circuit [OF f, of sample_sdk sample_sub] f by simp
qed




text \<open>
  C7, as the claim states it, fails: an element of \<^verbatim>\<open>data\<close> has the properties
  \<^verbatim>\<open>name\<close> and \<^verbatim>\<open>clValue\<close>; it has no property \<^verbatim>\<open>value\<close>, and reading
  one gives \<^verbatim>\<open>undefined\<close>.
\<close>

theorem data_element_has_no_value_property:
  "parseEvent sample_sdk sample_sub (success_payload [mint_transform]) =
     Inr (JObj [(''error'', JNull), (''success'', JBool True), (''data'', JArr [mint_event])])
   \<and> property_names mint_event = [''name'', ''clValue'']
   \<and> js_get mint_event ''value'' = JUndefined
   \<and> js_get mint_event ''clValue'' = JCLValue (CLMap sample_map)"
  by (simp add: parseEvent_mint) (simp add: mint_event_def js_get_def)

text \<open>
  C7, amended. For every payload without \<^verbatim>\<open>Failure\<close> on which the extraction
  returns, each element of \<^verbatim>\<open>data\<close> is an object with exactly the properties
  \<^verbatim>\<open>name\<close>, a subscribed event name, and \<^verbatim>\<open>clValue\<close>, the decoded map.
\<close>

theorem data_elements_name_clValue:
  assumes "Failure (execution_result (DeployProcessed (body v))) = None"
    and "parseEvent s sub v = Inr r"
  shows "\<forall>e \<in> set (elements (js_get r ''data'')).
           property_names e = [''name'', ''clValue'']
           \<and> (\<exists>n. js_get e ''name'' = JStr n \<and> n \<in> set (eventNames sub))
           \<and> (\<exists>m. js_get e ''clValue'' = JCLValue (CLMap m))"
proof -
  from assms obtain ok where ok: "Success (execution_result (DeployProcessed (body v))) = Some ok"
    by (auto simp: parseEvent_def Let_def split: option.splits)
  with assms(1) have v: "v = success_payload (transforms (effect ok))"
    by (rule success_payload_eq)
  with assms(2) obtain acc where acc: "reduce (callback s sub) (transforms (effect ok)) [] = Inr acc"
    and r: "r = JObj [(''error'', JNull), (''success'', JBool (acc \<noteq> [])), (''data'', JArr acc)]"
    using parseEvent_success [of s sub "transforms (effect ok)"] by (auto split: sum.splits)
  from acc have "\<forall>e \<in> set acc. event_shape sub e"
    by (rule reduce_callback_shape) simp
  then have "\<forall>e \<in> set acc. property_names e = [''name'', ''clValue'']
      \<and> (\<exists>n. js_get e ''name'' = JStr n \<and> n \<in> set (eventNames sub))
      \<and> (\<exists>m. js_get e ''clValue'' = JCLValue (CLMap m))"
    by (auto simp: event_shape_def js_get_def)
  moreover have "elements (js_get r ''data'') = acc"
    by (simp add: r js_get_def)
  ultimately show ?thesis by simp
qed

theorem data_elements_name_clValue_witness:
  "Failure (execution_result (DeployProcessed (body (success_payload [mint_transform])))) = None
   \<and> elements (js_get (JObj [(''error'', JNull), (''success'', JBool True),
                             (''data'', JArr [mint_event])]) ''data'') = [mint_event]
   \<and> property_names mint_event = [''name'', ''clValue'']
   \<and> (\<exists>n. js_get mint_event ''name'' = JStr n \<and> n \<in> set (eventNames sample_sub))
   \<and> (\<exists>m. js_get mint_event ''clValue'' = JCLValue (CLMap m))"
proof -
  have f: "Failure (execution_result (DeployProcessed (body (success_payload [mint_transform])))) = None"
    by (simp add: success_payload_def payload_of_def)
  have e: "elements (js_get (JObj [(''error'', JNull), (''success'', JBool True),
      (''data'', JArr [mint_event])]) ''data'') = [mint_event]"
    by (simp add: js_get_def)
  show ?thesis
    using data_elements_name_clValue [OF f parseEvent_mint] f e by simp
qed

text \<open>
  C9. A transform whose key starts with \<^verbatim>\<open>dictionary\<close> and that carries
  \<^verbatim>\<open>WriteCLValue\<close> is a candidate exactly when its \<^verbatim>\<open>parsed\<close> property is
  the value null. With any other value, and with the property missing
  (\<^verbatim>\<open>undefined\<close>), it is no candidate: the callback leaves the accumulator as
  it is, without decoding the bytes, and the extraction gives the result of the
  payload without the transform.
\<close>

theorem parsed_strictly_null:
  assumes "prefix ''dictionary'' (key val)" and "transform val = WriteCLValue w"
  shows "(is_candidate val \<longleftrightarrow> parsed w = JNull)
       \<and> (parsed w \<noteq> JNull \<longrightarrow>
            callback s sub acc val = Inr acc \<and>
            parseEvent s sub (success_payload (pre @ val # post)) =
              parseEvent s sub (success_payload (pre @ post)))
       \<and> (parsed w = JUndefined \<longrightarrow> \<not> is_candidate val \<and> callback s sub acc val = Inr acc)"
proof -
  have iff: "is_candidate val \<longleftrightarrow> parsed w = JNull"
    using assms by (simp add: is_candidate_def)
  have skip: "parsed w \<noteq> JNull \<Longrightarrow> callback s sub a val = Inr a" for a
    using iff by (simp add: callback_not_candidate)
  have "parsed w \<noteq> JNull \<Longrightarrow>
      parseEvent s sub (success_payload (pre @ val # post)) =
      parseEvent s sub (success_payload (pre @ post))"
    by (rule parseEvent_skip) (rule skip)
  with iff skip show ?thesis by auto
qed

theorem parsed_strictly_null_witness:
  "prefix ''dictionary'' (key unparsed_missing_transform)
   \<and> \<not> is_candidate unparsed_missing_transform
   \<and> parseEvent sample_sdk sample_sub
       (success_payload [mint_transform, unparsed_missing_transform]) =
     Inr (JObj [(''error'', JNull), (''success'', JBool True), (''data'', JArr [mint_event])])"
proof -
  have p: "prefix ''dictionary'' (key unparsed_missing_transform)"
    and t: "transform unparsed_missing_transform =
      WriteCLValue \<lparr>bytes = ''zz'', parsed = JUndefined\<rparr>"
    by (simp_all add: unparsed_missing_transform_def)
  note inst = parsed_strictly_null [OF p t, of sample_sdk sample_sub _ "[mint_transform]" "[]"]
  have "parseEvent sample_sdk sample_sub
      (success_payload ([mint_transform] @ unparsed_missing_transform # [])) =
    parseEvent sample_sdk sample_sub (success_payload ([mint_transform] @ []))"
    using inst by simp
  moreover have "\<not> is_candidate unparsed_missing_transform"
    using inst by simp
  ultimately show ?thesis using p by (simp add: parseEvent_mint)
qed

text \<open>
  C10. For a payload whose execution result has both the member \<^verbatim>\<open>Failure\<close>
  and the member \<^verbatim>\<open>Success\<close>, the extraction returns the failure variant
  \<^verbatim>\<open>{error: message, success: false}\<close>: \<^verbatim>\<open>Failure\<close> is tested first, and
  the transforms of \<^verbatim>\<open>Success\<close> are not scanned, so the result is that of
  the payload without \<^verbatim>\<open>Success\<close> and does not depend on what scanning
  them would give.
\<close>

theorem failure_takes_precedence:
  assumes "Failure er = Some f" and "Success er = Some ok"
  shows "parseEvent s sub (payload_of er) =
           Inr (JObj [(''error'', JStr (error_message f)), (''success'', JBool False)])
       \<and> parseEvent s sub (payload_of er) = parseEvent s sub (payload_of (er\<lparr>Success := None\<rparr>))
       \<and> (\<forall>e. reduce (callback s sub) (transforms (effect ok)) [] = Inl e \<longrightarrow>
            parseEvent s sub (payload_of er) \<noteq> Inl e)"
  using assms by (simp add: parseEvent_failure)

theorem failure_takes_precedence_witness:
  "Failure both_result = Some \<lparr>error_message = ''Out of gas''\<rparr>
   \<and> Success both_result =
       Some \<lparr>effect = \<lparr>transforms = [malformed_transform, mint_transform]\<rparr>\<rparr>
   \<and> reduce (callback sample_sdk sample_sub) [malformed_transform, mint_transform] [] =
       Inl (UnwrapError ''EarlyEndOfStream'')
   \<and> parseEvent sample_sdk sample_sub (payload_of both_result) =
       Inr (JObj [(''error'', JStr ''Out of gas''), (''success'', JBool False)])"
proof -
  have f: "Failure both_result = Some \<lparr>error_message = ''Out of gas''\<rparr>"
    and k: "Success both_result =
      Some \<lparr>effect = \<lparr>transforms = [malformed_transform, mint_transform]\<rparr>\<rparr>"
    by (simp_all add: both_result_def)
  have r: "reduce (callback sample_sdk sample_sub) [malformed_transform, mint_transform] [] =
      Inl (UnwrapError ''EarlyEndOfStream'')"
    by (simp add: callback_malformed)
  show ?thesis
    using failure_takes_precedence [OF f k, of sample_sdk sample_sub] f k r by simp
qed

end
